theory Spec2Isabelle
  imports Complex_Main
begin

section \<open>Python values, dictionaries and exceptions\<close>

text \<open>
  The program is the module \<^verbatim>\<open>backend/app/gmail_agent.py\<close> and its entry point
  \<^verbatim>\<open>backend/app/main.py\<close>. Python strings are modelled as \<^typ>\<open>string\<close>, the UTF-8 bytes
  of the text. An exception is a value of \<open>py_error\<close>, and a computation that can raise
  returns \<open>py_error + 'a\<close>, with \<open>Inl\<close> for the exception. \<open>Raised\<close> stands for
  an exception of any other class (its class name and message), as the execution engine
  can raise; \<open>Unsupported\<close> marks Python syntax that the model of f-strings below does
  not cover.
\<close>

datatype py_error =
    RuntimeError string
  | SyntaxError string
  | NameError string
  | KeyError string
  | Unsupported string
  | Raised string string

text \<open>
  The plain Python objects the program builds: strings, lists and dictionaries with
  string keys. A dictionary keeps its keys in insertion order, so it is an association
  list.
\<close>

datatype pyval =
    PyStr string
  | PyList "pyval list"
  | PyDict "(string \<times> pyval) list"

type_synonym pydict = "(string \<times> pyval) list"

text \<open>\<^verbatim>\<open>d[k]\<close>: the value stored under \<open>k\<close>, or \<^verbatim>\<open>KeyError\<close>.\<close>

definition getitem :: "(string \<times> 'v) list \<Rightarrow> string \<Rightarrow> py_error + 'v" where
  "getitem d k = (case map_of d k of None \<Rightarrow> Inl (KeyError k) | Some v \<Rightarrow> Inr v)"

section \<open>Tool binding: \<^verbatim>\<open>_gmail_mcp_tool\<close>\<close>

text \<open>
  \<^verbatim>\<open>HostedMCPTool\<close> is a dataclass of the agents library holding the configuration
  dictionary it is given.
\<close>

record HostedMCPTool =
  tool_config :: pydict

text \<open>
  \<^verbatim>\<open>_gmail_mcp_tool\<close> (lines 20 to 47). The process environment is a parameter, a map
  from variable names to values, and \<^verbatim>\<open>os.getenv\<close> is the lookup in it. The standard
  library's \<^verbatim>\<open>json.dumps\<close> is a parameter too. \<^verbatim>\<open>not expr\<close> holds when the variable
  is unset (\<^verbatim>\<open>None\<close>) and when it is the empty string.
\<close>

definition gmail_mcp_tool ::
  "(pyval \<Rightarrow> string) \<Rightarrow> (string \<rightharpoonup> string) \<Rightarrow> py_error + HostedMCPTool" where
  "gmail_mcp_tool json_dumps environ =
     (case environ ''GMAIL_MCP_AUTH_EXPRESSION'' of
        None \<Rightarrow>
          Inl (RuntimeError
            ''Missing GMAIL_MCP_AUTH_EXPRESSION env var required for Gmail MCP access.'')
      | Some expr \<Rightarrow>
          if expr = [] then
            Inl (RuntimeError
              ''Missing GMAIL_MCP_AUTH_EXPRESSION env var required for Gmail MCP access.'')
          else
            Inr \<lparr>tool_config =
              [(''type'', PyStr ''mcp''),
               (''server_label'', PyStr ''gmail''),
               (''allowed_tools'',
                  PyList
                    [PyStr ''batch_read_email'',
                     PyStr ''get_profile'',
                     PyStr ''get_recent_emails'',
                     PyStr ''read_email'',
                     PyStr ''search_email_ids'',
                     PyStr ''search_emails'']),
               (''authorization'',
                  PyStr (json_dumps
                    (PyDict [(''expression'', PyStr expr), (''format'', PyStr ''cel'')]))),
               (''connector_id'', PyStr ''connector_gmail''),
               (''require_approval'', PyStr ''never''),
               (''server_description'', PyStr ''NF AGENT'')]\<rparr>)"

section \<open>Output schema\<close>

text \<open>The three pydantic models of lines 53 to 67, and \<^verbatim>\<open>WorkflowInput\<close> (line 164).\<close>

record MedicalsGmailAgentSchema__AnexosXmlItem =
  nome_arquivo :: string
  conteudo_codificado :: string

record MedicalsGmailAgentSchema__EmailsItem =
  email_id :: string
  remetente :: string
  assunto :: string
  data :: string
  anexos_xml :: "MedicalsGmailAgentSchema__AnexosXmlItem list"

record MedicalsGmailAgentSchema =
  emails :: "MedicalsGmailAgentSchema__EmailsItem list"

record WorkflowInput =
  input_as_text :: string

text \<open>
  \<^verbatim>\<open>model_dump()\<close> of a pydantic model: the dictionary of its fields, in the order they
  are declared, with nested models dumped in turn.
\<close>

definition model_dump_AnexosXmlItem :: "MedicalsGmailAgentSchema__AnexosXmlItem \<Rightarrow> pydict" where
  "model_dump_AnexosXmlItem a =
     [(''nome_arquivo'', PyStr (nome_arquivo a)),
      (''conteudo_codificado'', PyStr (conteudo_codificado a))]"

definition model_dump_EmailsItem :: "MedicalsGmailAgentSchema__EmailsItem \<Rightarrow> pydict" where
  "model_dump_EmailsItem e =
     [(''email_id'', PyStr (email_id e)),
      (''remetente'', PyStr (remetente e)),
      (''assunto'', PyStr (assunto e)),
      (''data'', PyStr (data e)),
      (''anexos_xml'', PyList (map (\<lambda>a. PyDict (model_dump_AnexosXmlItem a)) (anexos_xml e)))]"

definition model_dump :: "MedicalsGmailAgentSchema \<Rightarrow> pydict" where
  "model_dump m = [(''emails'', PyList (map (\<lambda>e. PyDict (model_dump_EmailsItem e)) (emails m)))]"

definition model_dump_WorkflowInput :: "WorkflowInput \<Rightarrow> pydict" where
  "model_dump_WorkflowInput w = [(''input_as_text'', PyStr (input_as_text w))]"

section \<open>Instruction generator: \<^verbatim>\<open>medicals_gmail_agent_instructions\<close>\<close>

subsection \<open>Formatted string literals\<close>

text \<open>
  The function returns a formatted string literal (\<^verbatim>\<open>f"""..."""\<close>, lines 79 to 146).
  Python reads such a literal from left to right. Outside a replacement field,
  \<^verbatim>\<open>{{\<close> and \<^verbatim>\<open>}}\<close> stand for one brace, a single \<^verbatim>\<open>}\<close> is refused, a backslash
  starts an escape sequence, and a single \<^verbatim>\<open>{\<close> opens a replacement field, which
  runs to the next \<^verbatim>\<open>}\<close>. The text of a field is an expression; a backslash inside it
  is refused (\<^verbatim>\<open>SyntaxError: f-string expression part cannot include a backslash\<close>
  up to Python 3.11; later versions refuse the stray backslash the same way, as a
  character no expression can hold). The model covers the fields whose expression is a
  variable name, looked up in the local variables \<open>env\<close>, and the escape sequences
  \<^verbatim>\<open>\" \' \\ \n \t\<close>; anything else is \<open>Unsupported\<close>.
\<close>

definition is_space :: "char \<Rightarrow> bool" where
  "is_space c \<longleftrightarrow> c = CHR '' '' \<or> c = CHR 0x0A \<or> c = CHR 0x09 \<or> c = CHR 0x0D"

definition is_digit :: "char \<Rightarrow> bool" where
  "is_digit c \<longleftrightarrow> (let n = (of_char c :: nat) in 48 \<le> n \<and> n \<le> 57)"

definition is_name_char :: "char \<Rightarrow> bool" where
  "is_name_char c \<longleftrightarrow>
     (let n = (of_char c :: nat) in
      (97 \<le> n \<and> n \<le> 122) \<or> (65 \<le> n \<and> n \<le> 90) \<or> (48 \<le> n \<and> n \<le> 57) \<or> n = 95)"

definition is_name :: "string \<Rightarrow> bool" where
  "is_name s \<longleftrightarrow> s \<noteq> [] \<and> \<not> is_digit (hd s) \<and> list_all is_name_char s"

definition strip :: "string \<Rightarrow> string" where
  "strip s = rev (dropWhile is_space (rev (dropWhile is_space s)))"

text \<open>The value of a replacement field whose expression text is \<open>expr\<close>.\<close>

definition fstring_value :: "(string \<rightharpoonup> string) \<Rightarrow> string \<Rightarrow> py_error + string" where
  "fstring_value env expr =
     (let e = strip expr in
      if e = [] then Inl (SyntaxError ''f-string: empty expression not allowed'')
      else if \<not> is_name e then Inl (Unsupported e)
      else (case env e of None \<Rightarrow> Inl (NameError e) | Some v \<Rightarrow> Inr v))"

definition unescape :: "char \<Rightarrow> char option" where
  "unescape c =
     (if c = CHR 0x22 then Some (CHR 0x22)
      else if c = CHR 0x27 then Some (CHR 0x27)
      else if c = CHR 0x5C then Some (CHR 0x5C)
      else if c = CHR ''n'' then Some (CHR 0x0A)
      else if c = CHR ''t'' then Some (CHR 0x09)
      else None)"

text \<open>
  \<open>fstring_literal env out src\<close> reads the source text \<open>src\<close> outside a field and
  \<open>fstring_expr env out e src\<close> inside one; \<open>out\<close> is the result so far and \<open>e\<close> the
  expression text so far, both reversed.
\<close>

fun fstring_literal :: "(string \<rightharpoonup> string) \<Rightarrow> string \<Rightarrow> string \<Rightarrow> py_error + string"
  and fstring_expr :: "(string \<rightharpoonup> string) \<Rightarrow> string \<Rightarrow> string \<Rightarrow> string \<Rightarrow> py_error + string"
where
  "fstring_literal env out [] = Inr (rev out)"
| "fstring_literal env out (c # cs) =
     (if c = CHR ''{'' then
        (case cs of
           [] \<Rightarrow> Inl (SyntaxError ''f-string: expecting }'')
         | c' # cs' \<Rightarrow>
             if c' = CHR ''{'' then fstring_literal env (c # out) cs'
             else fstring_expr env out [] cs)
      else if c = CHR ''}'' then
        (case cs of
           [] \<Rightarrow> Inl (SyntaxError ''f-string: single } is not allowed'')
         | c' # cs' \<Rightarrow>
             if c' = CHR ''}'' then fstring_literal env (c # out) cs'
             else Inl (SyntaxError ''f-string: single } is not allowed''))
      else if c = CHR 0x5C then
        (case cs of
           [] \<Rightarrow> Inl (SyntaxError ''unterminated string literal'')
         | c' # cs' \<Rightarrow>
             (case unescape c' of
                None \<Rightarrow> Inl (Unsupported [c, c'])
              | Some x \<Rightarrow> fstring_literal env (x # out) cs'))
      else fstring_literal env (c # out) cs)"
| "fstring_expr env out e [] = Inl (SyntaxError ''f-string: expecting }'')"
| "fstring_expr env out e (c # cs) =
     (if c = CHR 0x5C then
        Inl (SyntaxError ''f-string expression part cannot include a backslash'')
      else if c = CHR ''}'' then
        (case fstring_value env (rev e) of
           Inl err \<Rightarrow> Inl err
         | Inr v \<Rightarrow> fstring_literal env (rev v @ out) cs)
      else fstring_expr env out (c # e) cs)"

definition fstring :: "(string \<rightharpoonup> string) \<Rightarrow> string \<Rightarrow> py_error + string" where
  "fstring env src = fstring_literal env [] src"

subsection \<open>The text of the literal\<close>

text \<open>
  The source text between the opening \<^verbatim>\<open>f"""\<close> of line 79 and the closing
  \<^verbatim>\<open>"""\<close> of line 146, byte for byte (3045 bytes), in four parts: up to the first label
  placeholder (line 79), from there to the second (line 85), from there to the brace
  that opens line 97's JSON example, and the rest. A list \<open>[CHR 0x..]\<close> holds the bytes
  that are not printable ASCII: the UTF-8 encoding of an accented letter or of the
  non-breaking hyphen, and \<open>CHR 0x5C\<close>, the backslash.
\<close>

definition instructions_text_1 :: string where
  \<open>instructions_text_1 = concat
    [''Buscar todos os e-mails do Gmail cujo label '' @ [CHR 0xC3, CHR 0xA9] @ '' exatamente '']\<close>

definition instructions_text_2 :: string where
  \<open>instructions_text_2 = concat
    [''. Para cada e'' @ [CHR 0xE2, CHR 0x80, CHR 0x91] @ ''mail, verifique se h'' @ [CHR 0xC3, CHR 0xA1] @ '' anexos que sejam arquivos .xml. Apenas baixe e processe anexos com essa extens'' @ [CHR 0xC3, CHR 0xA3] @ ''o. Inclua no resultado somente at'' @ [CHR 0xC3, CHR 0xA9] @ '' o m'' @ [CHR 0xC3, CHR 0xA1] @ ''ximo de 900 registros de anexos .xml baixados (n'' @ [CHR 0xC3, CHR 0xA3] @ ''o exceda esse n'' @ [CHR 0xC3, CHR 0xBA] @ ''mero).\<newline>'',
     ''\<newline>'',
     ''Ap'' @ [CHR 0xC3, CHR 0xB3] @ ''s processar, gere um arquivo chamado `emails_data.json` contendo as informa'' @ [CHR 0xC3, CHR 0xA7, CHR 0xC3, CHR 0xB5] @ ''es extra'' @ [CHR 0xC3, CHR 0xAD] @ ''das dos e'' @ [CHR 0xE2, CHR 0x80, CHR 0x91] @ ''mails e dos anexos. \<newline>'',
     ''\<newline>'',
     ''# Passos recomendados\<newline>'',
     ''\<newline>'',
     ''1. Conecte-se '' @ [CHR 0xC3, CHR 0xA0] @ '' conta do Gmail e busque e'' @ [CHR 0xE2, CHR 0x80, CHR 0x91] @ ''mails cujo label '' @ [CHR 0xC3, CHR 0xA9] @ '' exatamente '']\<close>

definition instructions_text_3 :: string where
  \<open>instructions_text_3 = concat
    [''.\<newline>'',
     ''2. Para cada e'' @ [CHR 0xE2, CHR 0x80, CHR 0x91] @ ''mail listado, verifique todos os anexos:\<newline>'',
     ''    - Baixe apenas aqueles com extens'' @ [CHR 0xC3, CHR 0xA3] @ ''o `.xml`.\<newline>'',
     ''    - Colete informa'' @ [CHR 0xC3, CHR 0xA7, CHR 0xC3, CHR 0xB5] @ ''es do e-mail (e.g. remetente, assunto, data) e dos anexos relevantes.\<newline>'',
     ''3. Pare assim que atingir o limite de 900 arquivos anexos .xml baixados, mesmo que haja mais dispon'' @ [CHR 0xC3, CHR 0xAD] @ ''veis.\<newline>'',
     ''4. Salve todos os dados em um arquivo chamado `emails_data.json`.\<newline>'',
     ''\<newline>'',
     ''# Output Format\<newline>'',
     ''\<newline>'',
     ''- O resultado deve ser salvo em um arquivo `emails_data.json` com um array de objetos, onde cada objeto representa um e-mail com os metadados relevantes e os detalhes dos anexos .xml baixados.\<newline>'',
     ''- Exemplo em JSON (representativo):\<newline>'',
     ''  [\<newline>'',
     ''    '']\<close>

definition instructions_text_4 :: string where
  \<open>instructions_text_4 = concat
    [''\<newline>'',
     ''      '' @ [CHR 0x5C] @ ''"email_id'' @ [CHR 0x5C] @ ''": '' @ [CHR 0x5C] @ ''"[ID do e-mail]'' @ [CHR 0x5C] @ ''",\<newline>'',
     ''      '' @ [CHR 0x5C] @ ''"remetente'' @ [CHR 0x5C] @ ''": '' @ [CHR 0x5C] @ ''"[endere'' @ [CHR 0xC3, CHR 0xA7, CHR 0xC3, CHR 0xB5] @ '' de e-mail]'' @ [CHR 0x5C] @ ''",\<newline>'',
     ''      '' @ [CHR 0x5C] @ ''"assunto'' @ [CHR 0x5C] @ ''": '' @ [CHR 0x5C] @ ''"[assunto do e-mail]'' @ [CHR 0x5C] @ ''",\<newline>'',
     ''      '' @ [CHR 0x5C] @ ''"data'' @ [CHR 0x5C] @ ''": '' @ [CHR 0x5C] @ ''"[timestamp ou data]'' @ [CHR 0x5C] @ ''",\<newline>'',
     ''      '' @ [CHR 0x5C] @ ''"anexos_xml'' @ [CHR 0x5C] @ ''": [\<newline>'',
     ''        {\<newline>'',
     ''          '' @ [CHR 0x5C] @ ''"nome_arquivo'' @ [CHR 0x5C] @ ''": '' @ [CHR 0x5C] @ ''"[nome do anexo.xml]'' @ [CHR 0x5C] @ ''",\<newline>'',
     ''          '' @ [CHR 0x5C] @ ''"conteudo_codificado'' @ [CHR 0x5C] @ ''": '' @ [CHR 0x5C] @ ''"[base64 ou link/localiza'' @ [CHR 0xC3, CHR 0xA7, CHR 0xC3, CHR 0xA3] @ ''o do arquivo salvo]'' @ [CHR 0x5C] @ ''"\<newline>'',
     ''        }\<newline>'',
     ''      ]\<newline>'',
     ''    }\<newline>'',
     ''    // ... (at'' @ [CHR 0xC3, CHR 0xA9] @ '' o m'' @ [CHR 0xC3, CHR 0xA1] @ ''ximo de 900 anexos.xml no total)\<newline>'',
     ''  ]\<newline>'',
     ''- O arquivo completo n'' @ [CHR 0xC3, CHR 0xA3] @ ''o deve exceder o total de 900 arquivos .xml.\<newline>'',
     ''\<newline>'',
     ''# Exemplo\<newline>'',
     ''\<newline>'',
     ''Entrada: label '' @ [CHR 0x5C] @ ''"NF-MEDICOS/{state_subsidiaria}'' @ [CHR 0x5C] @ ''"\<newline>'',
     ''\<newline>'',
     ''Sa'' @ [CHR 0xC3, CHR 0xAD] @ ''da esperada em `emails_data.json`:\<newline>'',
     ''\<newline>'',
     ''[\<newline>'',
     ''  {\<newline>'',
     ''    '' @ [CHR 0x5C] @ ''"email_id'' @ [CHR 0x5C] @ ''": '' @ [CHR 0x5C] @ ''"1234'' @ [CHR 0x5C] @ ''",\<newline>'',
     ''    '' @ [CHR 0x5C] @ ''"remetente'' @ [CHR 0x5C] @ ''": '' @ [CHR 0x5C] @ ''"exemplo@email.com'' @ [CHR 0x5C] @ ''",\<newline>'',
     ''    '' @ [CHR 0x5C] @ ''"assunto'' @ [CHR 0x5C] @ ''": '' @ [CHR 0x5C] @ ''"Envio de nota fiscal'' @ [CHR 0x5C] @ ''",\<newline>'',
     ''    '' @ [CHR 0x5C] @ ''"data'' @ [CHR 0x5C] @ ''": '' @ [CHR 0x5C] @ ''"2024-06-13T09:12:23Z'' @ [CHR 0x5C] @ ''",\<newline>'',
     ''    '' @ [CHR 0x5C] @ ''"anexos_xml'' @ [CHR 0x5C] @ ''": [\<newline>'',
     ''      {\<newline>'',
     ''        '' @ [CHR 0x5C] @ ''"nome_arquivo'' @ [CHR 0x5C] @ ''": '' @ [CHR 0x5C] @ ''"nf-123.xml'' @ [CHR 0x5C] @ ''",\<newline>'',
     ''        '' @ [CHR 0x5C] @ ''"conteudo_codificado'' @ [CHR 0x5C] @ ''": '' @ [CHR 0x5C] @ ''"[conte'' @ [CHR 0xC3, CHR 0xBA] @ ''do base64 do xml ou caminho/local]'' @ [CHR 0x5C] @ ''"\<newline>'',
     ''      }\<newline>'',
     ''    ]\<newline>'',
     ''  },\<newline>'',
     ''  // ...(outros e-mails, at'' @ [CHR 0xC3, CHR 0xA9] @ '' somar 900 xmls)\<newline>'',
     '']\<newline>'',
     ''\<newline>'',
     ''(Observa'' @ [CHR 0xC3, CHR 0xA7, CHR 0xC3, CHR 0xA3] @ ''o: Para cada e-mail, inclua todos os anexos.xml, mas o total de anexos .xml no arquivo nunca deve ser maior que 900.)\<newline>'',
     ''\<newline>'',
     ''# Notas\<newline>'',
     ''\<newline>'',
     ''- N'' @ [CHR 0xC3, CHR 0xA3] @ ''o processe anexos de outros formatos al'' @ [CHR 0xC3, CHR 0xA9] @ ''m de .xml.\<newline>'',
     ''- O crit'' @ [CHR 0xC3, CHR 0xA9] @ ''rio do limite m'' @ [CHR 0xC3, CHR 0xA1] @ ''ximo refere-se ao n'' @ [CHR 0xC3, CHR 0xBA] @ ''mero total de anexos .xml baixados e registrados no JSON, n'' @ [CHR 0xC3, CHR 0xA3] @ ''o ao n'' @ [CHR 0xC3, CHR 0xBA] @ ''mero de e-mails.\<newline>'',
     ''- O label precisa ser igual ao valor de '' @ [CHR 0x5C] @ ''"NF-MEDICOS/{state_subsidiaria}'' @ [CHR 0x5C] @ ''" (n'' @ [CHR 0xC3, CHR 0xA3] @ ''o inclua similares ou sublabels).\<newline>'',
     ''- N'' @ [CHR 0xC3, CHR 0xA3] @ ''o escreva conclus'' @ [CHR 0xC3, CHR 0xB5] @ ''es, apenas siga a l'' @ [CHR 0xC3, CHR 0xB3] @ ''gica de busca, filtro, limite e grava'' @ [CHR 0xC3, CHR 0xA7, CHR 0xC3, CHR 0xA3] @ ''o dos dados.\<newline>'',
     ''- Se menos de 900 anexos .xml forem encontrados, inclua todos.\<newline>'',
     ''- N'' @ [CHR 0xC3, CHR 0x83] @ ''O inclua outros textos no arquivo de sa'' @ [CHR 0xC3, CHR 0xAD] @ ''da al'' @ [CHR 0xC3, CHR 0xA9] @ ''m do pr'' @ [CHR 0xC3, CHR 0xB3] @ ''prio JSON.\<newline>'',
     ''\<newline>'',
     ''IMPORTANTE: Acesse somente os e-mails que tenham exatamente o label informado; filtre apropriadamente; e respeite o limite de sa'' @ [CHR 0xC3, CHR 0xAD] @ ''da do total de 900 arquivos xml. '']\<close>

text \<open>The placeholder as lines 79, 85, 115 and 141 write it.\<close>

definition label_placeholder :: string where
  \<open>label_placeholder = [CHR 0x5C] @ ''"NF-MEDICOS/{state_subsidiaria}'' @ [CHR 0x5C] @ ''"''\<close>

definition instructions_template :: string where
  "instructions_template =
     instructions_text_1 @ label_placeholder @
     instructions_text_2 @ label_placeholder @
     instructions_text_3 @ ''{'' @ instructions_text_4"

subsection \<open>The generator\<close>

text \<open>
  \<^verbatim>\<open>MedicalsGmailAgentContext\<close> (lines 70 to 72) and the library's wrapper around it,
  of which the function reads the attribute \<^verbatim>\<open>context\<close> only. The function's second
  argument (\<^verbatim>\<open>_agent\<close>), the agent, is not used.
\<close>

record MedicalsGmailAgentContext =
  state_subsidiaria :: string

record 'c RunContextWrapper =
  context' :: 'c

definition medicals_gmail_agent_instructions ::
  "('m MedicalsGmailAgentContext_scheme, 'w) RunContextWrapper_scheme \<Rightarrow> 'a \<Rightarrow> py_error + string" where
  "medicals_gmail_agent_instructions run_context agent_arg =
     (let subsidiaria = state_subsidiaria (context' run_context) in
      fstring [''state_subsidiaria'' \<mapsto> subsidiaria] instructions_template)"

section \<open>Agent definition\<close>

text \<open>
  \<^verbatim>\<open>ModelSettings\<close> and \<^verbatim>\<open>Agent\<close> as lines 149 to 161 fill them. The temperature is
  the decimal literal \<^verbatim>\<open>0.15\<close>; \<^verbatim>\<open>output_type\<close> names the schema class. The library
  calls \<^verbatim>\<open>instructions\<close> with the wrapped run context and the agent itself; the
  generator ignores the agent, and \<^typ>\<open>unit\<close> stands for it here.
\<close>

record ModelSettings =
  temperature :: rat
  top_p :: int
  max_tokens :: int
  store :: bool

record Agent =
  name :: string
  instructions :: "MedicalsGmailAgentContext RunContextWrapper \<Rightarrow> unit \<Rightarrow> py_error + string"
  model :: string
  tools :: "HostedMCPTool list"
  output_type :: string
  model_settings :: ModelSettings

definition medicals_gmail_agent :: "HostedMCPTool \<Rightarrow> Agent" where
  "medicals_gmail_agent mcp =
     \<lparr>name = ''MEDICALS Gmail Agent'',
      instructions = medicals_gmail_agent_instructions,
      model = ''gpt-4.1-mini'',
      tools = [mcp],
      output_type = ''MedicalsGmailAgentSchema'',
      model_settings = \<lparr>temperature = 15 / 100, top_p = 1, max_tokens = 2048, store = True\<rparr>\<rparr>"

text \<open>
  Importing the module runs its top-level statements in order: line 50 builds the tool
  binding, and only then are the classes and the agent of lines 53 to 161 defined. The
  result is the module's globals \<^verbatim>\<open>mcp\<close> and \<^verbatim>\<open>medicals_gmail_agent\<close> (the field
  \<open>agent\<close>).
\<close>

record gmail_agent_module =
  mcp :: HostedMCPTool
  agent :: Agent


section \<open>Serialized output: \<^verbatim>\<open>.json()\<close>\<close>

text \<open>
  \<^verbatim>\<open>final_output.json()\<close> is pydantic's JSON text of the model: the compact form (no
  white space between tokens) of the dictionary \<^verbatim>\<open>model_dump()\<close> returns. Within a
  string, the quotation mark, the backslash and the control characters below \<open>0x20\<close>
  are escaped; every other byte is written as it is.
\<close>

definition hex_digit :: "nat \<Rightarrow> char" where
  "hex_digit n = (if n < 10 then char_of (48 + n) else char_of (87 + n))"

definition json_escape :: "char \<Rightarrow> string" where
  "json_escape c =
     (if c = CHR 0x22 then [CHR 0x5C, CHR 0x22]
      else if c = CHR 0x5C then [CHR 0x5C, CHR 0x5C]
      else if c = CHR 0x08 then [CHR 0x5C, CHR ''b'']
      else if c = CHR 0x09 then [CHR 0x5C, CHR ''t'']
      else if c = CHR 0x0A then [CHR 0x5C, CHR ''n'']
      else if c = CHR 0x0C then [CHR 0x5C, CHR ''f'']
      else if c = CHR 0x0D then [CHR 0x5C, CHR ''r'']
      else if (of_char c :: nat) < 32 then
        [CHR 0x5C, CHR ''u'', CHR ''0'', CHR ''0'',
         hex_digit (of_char c div 16), hex_digit (of_char c mod 16)]
      else [c])"

definition json_string :: "string \<Rightarrow> string" where
  "json_string s = [CHR 0x22] @ concat (map json_escape s) @ [CHR 0x22]"

text \<open>\<^verbatim>\<open>sep.join(xs)\<close>.\<close>

fun join :: "string \<Rightarrow> string list \<Rightarrow> string" where
  "join sep [] = []"
| "join sep [x] = x"
| "join sep (x # y # ys) = x @ sep @ join sep (y # ys)"

fun to_json :: "pyval \<Rightarrow> string" where
  "to_json (PyStr s) = json_string s"
| "to_json (PyList xs) = ''['' @ join '','' (map to_json xs) @ '']''"
| "to_json (PyDict kvs) =
     ''{'' @ join '','' (map (\<lambda>kv. json_string (fst kv) @ '':'' @ to_json (snd kv)) kvs) @ ''}''"

definition json :: "MedicalsGmailAgentSchema \<Rightarrow> string" where
  "json m = to_json (PyDict (model_dump m))"

section \<open>Reading JSON text\<close>

text \<open>
  What the serialized output denotes is decided by a JSON reader, as \<^verbatim>\<open>json.loads\<close>
  is: white space between tokens is skipped, a string ends at the first quotation mark
  that is not escaped, and an object with a repeated key keeps the key's first place
  and its last value, as a Python dictionary does. The reader covers the JSON texts made
  of objects, arrays and strings, the values this program serializes; in a string, a
  \<^verbatim>\<open>\u\<close> escape is read for the code points below \<open>0x80\<close>. It answers \<open>None\<close> for any
  other text. The number of nested calls is bounded by the first argument of
  \<open>parse_value\<close>, for which \<open>json_loads\<close> takes the length of the text; that
  is enough for every text \<open>to_json\<close> writes (lemma \<open>parse_value_to_json\<close>).
\<close>

definition json_space :: "char \<Rightarrow> bool" where
  "json_space c \<longleftrightarrow> c = CHR '' '' \<or> c = CHR 0x09 \<or> c = CHR 0x0A \<or> c = CHR 0x0D"

definition skip_space :: "string \<Rightarrow> string" where
  "skip_space s = dropWhile json_space s"

definition hex_value :: "char \<Rightarrow> nat option" where
  "hex_value c =
     (let n = (of_char c :: nat) in
      if 48 \<le> n \<and> n \<le> 57 then Some (n - 48)
      else if 97 \<le> n \<and> n \<le> 102 then Some (n - 87)
      else if 65 \<le> n \<and> n \<le> 70 then Some (n - 55)
      else None)"

definition hex4 :: "char \<Rightarrow> char \<Rightarrow> char \<Rightarrow> char \<Rightarrow> nat option" where
  "hex4 a b c d =
     (case (hex_value a, hex_value b, hex_value c, hex_value d) of
        (Some h3, Some h2, Some h1, Some h0) \<Rightarrow> Some (((h3 * 16 + h2) * 16 + h1) * 16 + h0)
      | _ \<Rightarrow> None)"

definition json_unescape :: "char \<Rightarrow> char option" where
  "json_unescape e =
     (if e = CHR 0x22 then Some (CHR 0x22)
      else if e = CHR 0x5C then Some (CHR 0x5C)
      else if e = CHR ''/'' then Some (CHR ''/'')
      else if e = CHR ''b'' then Some (CHR 0x08)
      else if e = CHR ''f'' then Some (CHR 0x0C)
      else if e = CHR ''n'' then Some (CHR 0x0A)
      else if e = CHR ''r'' then Some (CHR 0x0D)
      else if e = CHR ''t'' then Some (CHR 0x09)
      else None)"

fun parse_string :: "string \<Rightarrow> string \<Rightarrow> (string \<times> string) option" where
  "parse_string acc [] = None"
| "parse_string acc (c # cs) =
     (if c = CHR 0x22 then Some (rev acc, cs)
      else if c = CHR 0x5C then
        (case cs of
           [] \<Rightarrow> None
         | e # cs1 \<Rightarrow>
             if e = CHR ''u'' then
               (case cs1 of
                  h3 # h2 # h1 # h0 # cs2 \<Rightarrow>
                    (case hex4 h3 h2 h1 h0 of
                       None \<Rightarrow> None
                     | Some n \<Rightarrow> if n < 128 then parse_string (char_of n # acc) cs2 else None)
                | _ \<Rightarrow> None)
             else
               (case json_unescape e of
                  None \<Rightarrow> None
                | Some x \<Rightarrow> parse_string (x # acc) cs1))
      else if (of_char c :: nat) < 32 then None
      else parse_string (c # acc) cs)"

fun dict_set :: "string \<Rightarrow> 'v \<Rightarrow> (string \<times> 'v) list \<Rightarrow> (string \<times> 'v) list" where
  "dict_set k v [] = [(k, v)]"
| "dict_set k v ((k', v') # d) = (if k' = k then (k, v) # d else (k', v') # dict_set k v d)"

fun parse_value :: "nat \<Rightarrow> string \<Rightarrow> (pyval \<times> string) option"
  and parse_elements :: "nat \<Rightarrow> pyval list \<Rightarrow> string \<Rightarrow> (pyval \<times> string) option"
  and parse_members :: "nat \<Rightarrow> (string \<times> pyval) list \<Rightarrow> string \<Rightarrow> (pyval \<times> string) option"
where
  "parse_value 0 s = None"
| "parse_value (Suc n) s =
     (case skip_space s of
        [] \<Rightarrow> None
      | c # cs \<Rightarrow>
          if c = CHR 0x22 then
            (case parse_string [] cs of
               None \<Rightarrow> None
             | Some (str, rest) \<Rightarrow> Some (PyStr str, rest))
          else if c = CHR ''['' then
            (case skip_space cs of
               [] \<Rightarrow> None
             | c1 # cs1 \<Rightarrow>
                 if c1 = CHR '']'' then Some (PyList [], cs1) else parse_elements n [] cs)
          else if c = CHR ''{'' then
            (case skip_space cs of
               [] \<Rightarrow> None
             | c1 # cs1 \<Rightarrow>
                 if c1 = CHR ''}'' then Some (PyDict [], cs1) else parse_members n [] cs)
          else None)"
| "parse_elements 0 acc s = None"
| "parse_elements (Suc n) acc s =
     (case parse_value n s of
        None \<Rightarrow> None
      | Some (v, rest) \<Rightarrow>
          (case skip_space rest of
             [] \<Rightarrow> None
           | c # cs \<Rightarrow>
               if c = CHR '','' then parse_elements n (v # acc) cs
               else if c = CHR '']'' then Some (PyList (rev (v # acc)), cs)
               else None))"
| "parse_members 0 acc s = None"
| "parse_members (Suc n) acc s =
     (case skip_space s of
        [] \<Rightarrow> None
      | q # s1 \<Rightarrow>
          if q = CHR 0x22 then
            (case parse_string [] s1 of
               None \<Rightarrow> None
             | Some (k, s2) \<Rightarrow>
                 (case skip_space s2 of
                    [] \<Rightarrow> None
                  | colon # s3 \<Rightarrow>
                      if colon = CHR '':'' then
                        (case parse_value n s3 of
                           None \<Rightarrow> None
                         | Some (v, rest) \<Rightarrow>
                             (case skip_space rest of
                                [] \<Rightarrow> None
                              | c # cs \<Rightarrow>
                                  if c = CHR '','' then parse_members n (dict_set k v acc) cs
                                  else if c = CHR ''}'' then Some (PyDict (dict_set k v acc), cs)
                                  else None))
                      else None))
          else None)"

definition json_loads :: "string \<Rightarrow> pyval option" where
  "json_loads s =
     (case parse_value (length s) s of
        None \<Rightarrow> None
      | Some (v, rest) \<Rightarrow> if skip_space rest = [] then Some v else None)"

text \<open>A value whose dictionaries, at every depth, repeat no key.\<close>

fun distinct_keys :: "pyval \<Rightarrow> bool" where
  "distinct_keys (PyStr s) = True"
| "distinct_keys (PyList xs) = list_all distinct_keys xs"
| "distinct_keys (PyDict kvs) = (distinct (map fst kvs) \<and> list_all (\<lambda>kv. distinct_keys (snd kv)) kvs)"

section \<open>Workflow runner: \<^verbatim>\<open>run_workflow\<close>\<close>

text \<open>
  The execution engine \<^verbatim>\<open>Runner.run\<close> is a parameter: given the agent, the input
  items, the run configuration and the run context, it raises or returns a result with
  the new items of the run and the final output, an instance of the agent's output type.
  The engine's items are of a type \<open>'ri\<close> of the library; their method
  \<^verbatim>\<open>to_input_item\<close> is a parameter as well.
\<close>

record RunConfig =
  trace_metadata :: "(string \<times> string) list"

record 'ri RunResult =
  new_items :: "'ri list"
  final_output :: MedicalsGmailAgentSchema

type_synonym 'ri Runner_run =
  "Agent \<Rightarrow> pyval list \<Rightarrow> RunConfig \<Rightarrow> MedicalsGmailAgentContext \<Rightarrow> py_error + 'ri RunResult"

text \<open>
  \<^verbatim>\<open>with trace(name):\<close> opens a trace scope, runs its body and closes the scope on
  every way out of the body; an exception of the body goes on to the caller afterwards.
  The scopes opened and closed so far are a log of events.
\<close>

datatype trace_event = TraceStarted string | TraceFinished string

definition with_trace ::
  "string \<Rightarrow> (py_error + 'a) \<Rightarrow> trace_event list \<Rightarrow> trace_event list \<times> (py_error + 'a)" where
  "with_trace workflow_name body tlog =
     (let entered = tlog @ [TraceStarted workflow_name];
          outcome = body;
          exited = entered @ [TraceFinished workflow_name]
      in (exited, outcome))"

text \<open>The conversation item of lines 175 to 183 and the run configuration of lines 189 to 194.\<close>

definition user_input_item :: "pyval \<Rightarrow> pyval" where
  "user_input_item input_text =
     PyDict
       [(''role'', PyStr ''user''),
        (''content'', PyList [PyDict [(''type'', PyStr ''input_text''), (''text'', input_text)]])]"

definition workflow_run_config :: RunConfig where
  "workflow_run_config =
     \<lparr>trace_metadata =
        [(''__trace_source__'', ''agent-builder''),
         (''workflow_id'', ''wf_69017440b2048190a72ae533ac695e3f0b27e32e86827535'')]\<rparr>"

text \<open>
  The body of the \<^verbatim>\<open>with\<close> statement (lines 171 to 207). Besides the dictionary the
  function returns, the model hands back the local variable
  \<^verbatim>\<open>conversation_history\<close> as it stands at the \<^verbatim>\<open>return\<close>.
\<close>

definition run_workflow_body ::
  "Agent \<Rightarrow> 'ri Runner_run \<Rightarrow> ('ri \<Rightarrow> pyval) \<Rightarrow> WorkflowInput \<Rightarrow> py_error + (pyval list \<times> pydict)" where
  "run_workflow_body the_agent Runner_run to_input_item workflow_input =
     (let state = [(''subsidiaria'', ''MEDICALS'')];
          workflow = model_dump_WorkflowInput workflow_input
      in case getitem workflow ''input_as_text'' of
           Inl err \<Rightarrow> Inl err
         | Inr input_text \<Rightarrow>
             (let conversation_history = [user_input_item input_text]
              in case getitem state ''subsidiaria'' of
                   Inl err \<Rightarrow> Inl err
                 | Inr subsidiaria \<Rightarrow>
                     (case Runner_run the_agent conversation_history workflow_run_config
                             \<lparr>state_subsidiaria = subsidiaria\<rparr> of
                        Inl err \<Rightarrow> Inl err
                      | Inr result_temp \<Rightarrow>
                          (let conversation_history =
                                 conversation_history @ map to_input_item (new_items result_temp);
                               result =
                                 [(''output_text'', PyStr (json (final_output result_temp))),
                                  (''output_parsed'', PyDict (model_dump (final_output result_temp)))]
                           in Inr (conversation_history, result)))))"

definition run_workflow ::
  "Agent \<Rightarrow> 'ri Runner_run \<Rightarrow> ('ri \<Rightarrow> pyval) \<Rightarrow> trace_event list \<Rightarrow> WorkflowInput
     \<Rightarrow> trace_event list \<times> (py_error + pydict)" where
  "run_workflow the_agent Runner_run to_input_item tlog workflow_input =
     with_trace ''NF-MEDICOS''
       (map_sum id snd (run_workflow_body the_agent Runner_run to_input_item workflow_input)) tlog"

section \<open>Entry point: \<^verbatim>\<open>main.py\<close>\<close>


definition health_check :: "(string \<times> string) list" where
  "health_check = [(''status'', ''healthy'')]"



section \<open>Tool binding: results\<close>




text \<open>
  C6. For every non-empty authorization expression the tool binding is built, and its
  allow-list is the list of the six operation names, no more and no fewer.
\<close>

theorem gmail_mcp_tool_allow_list:
  assumes "environ ''GMAIL_MCP_AUTH_EXPRESSION'' = Some expr" and "expr \<noteq> []"
  shows "\<exists>tool. gmail_mcp_tool json_dumps environ = Inr tool
    \<and> getitem (tool_config tool) ''allowed_tools'' =
        Inr (PyList
          [PyStr ''batch_read_email'', PyStr ''get_profile'', PyStr ''get_recent_emails'',
           PyStr ''read_email'', PyStr ''search_email_ids'', PyStr ''search_emails''])"
  using assms by (simp add: gmail_mcp_tool_def getitem_def)

theorem gmail_mcp_tool_allow_list_witness:
  "[''GMAIL_MCP_AUTH_EXPRESSION'' \<mapsto> ''request.auth.token''] ''GMAIL_MCP_AUTH_EXPRESSION''
     = Some ''request.auth.token''
   \<and> ''request.auth.token'' \<noteq> []
   \<and> (\<exists>tool. gmail_mcp_tool to_json [''GMAIL_MCP_AUTH_EXPRESSION'' \<mapsto> ''request.auth.token''] = Inr tool
      \<and> getitem (tool_config tool) ''allowed_tools'' =
        Inr (PyList
          [PyStr ''batch_read_email'', PyStr ''get_profile'', PyStr ''get_recent_emails'',
           PyStr ''read_email'', PyStr ''search_email_ids'', PyStr ''search_emails'']))"
  using
    gmail_mcp_tool_allow_list
      [where environ = "[''GMAIL_MCP_AUTH_EXPRESSION'' \<mapsto> ''request.auth.token'']"
        and expr = "''request.auth.token''" and json_dumps = to_json]
  by simp

section \<open>Workflow runner: results\<close>

text \<open>
  The one call of the engine: its input is the single user item, its context the
  constant discriminator, and the run's outcome is decided by what it returns.
\<close>

lemma run_workflow_body_engine:
  "run_workflow_body a Runner_run to_input_item w =
     (case Runner_run a [user_input_item (PyStr (input_as_text w))] workflow_run_config
             \<lparr>state_subsidiaria = ''MEDICALS''\<rparr> of
        Inl err \<Rightarrow> Inl err
      | Inr res \<Rightarrow>
          Inr ([user_input_item (PyStr (input_as_text w))] @ map to_input_item (new_items res),
               [(''output_text'', PyStr (json (final_output res))),
                (''output_parsed'', PyDict (model_dump (final_output res)))]))"
  by (simp add: run_workflow_body_def model_dump_WorkflowInput_def getitem_def Let_def
      split: sum.split)

lemma run_workflow_engine:
  "run_workflow a Runner_run to_input_item tlog w =
     (tlog @ [TraceStarted ''NF-MEDICOS'', TraceFinished ''NF-MEDICOS''],
      case Runner_run a [user_input_item (PyStr (input_as_text w))] workflow_run_config
             \<lparr>state_subsidiaria = ''MEDICALS''\<rparr> of
        Inl err \<Rightarrow> Inl err
      | Inr res \<Rightarrow>
          Inr [(''output_text'', PyStr (json (final_output res))),
               (''output_parsed'', PyDict (model_dump (final_output res)))])"
  by (simp add: run_workflow_def with_trace_def run_workflow_body_engine Let_def split: sum.split)

text \<open>
  C7. If the engine raises, \<^verbatim>\<open>run_workflow\<close> raises the same exception and returns no
  result dictionary, and the trace scope it opened has been closed, once.
\<close>

theorem engine_failure_propagates:
  assumes "Runner_run a [user_input_item (PyStr (input_as_text w))] workflow_run_config
             \<lparr>state_subsidiaria = ''MEDICALS''\<rparr> = Inl err"
  shows "run_workflow a Runner_run to_input_item tlog w =
           (tlog @ [TraceStarted ''NF-MEDICOS'', TraceFinished ''NF-MEDICOS''], Inl err)"
  using assms by (simp add: run_workflow_engine)

theorem engine_failure_propagates_witness:
  "run_workflow (medicals_gmail_agent \<lparr>tool_config = []\<rparr>)
     (\<lambda>a i c x. Inl (Raised ''ModelBehaviorError'' ''invalid output'') :: py_error + pyval RunResult)
     id [] \<lparr>input_as_text = ''run''\<rparr> =
   ([TraceStarted ''NF-MEDICOS'', TraceFinished ''NF-MEDICOS''],
    Inl (Raised ''ModelBehaviorError'' ''invalid output''))"
  using
    engine_failure_propagates
      [where Runner_run =
          "\<lambda>a i c x. Inl (Raised ''ModelBehaviorError'' ''invalid output'') :: py_error + pyval RunResult"
        and a = "medicals_gmail_agent \<lparr>tool_config = []\<rparr>" and w = "\<lparr>input_as_text = ''run''\<rparr>"
        and err = "Raised ''ModelBehaviorError'' ''invalid output''"
        and to_input_item = id and tlog = "[]"]
  by simp

text \<open>
  C10. Whatever the input, the engine is given the context whose discriminator is
  \<^verbatim>\<open>MEDICALS\<close>: an engine that reports the discriminator it receives reports
  \<^verbatim>\<open>MEDICALS\<close>, and for every engine the run is the same as if the engine were handed
  that constant context.
\<close>

theorem engine_context_is_MEDICALS:
  "snd (run_workflow a
          (\<lambda>ag items cfg ctx. Inl (Raised ''discriminator'' (state_subsidiaria ctx)))
          to_input_item tlog w) = Inl (Raised ''discriminator'' ''MEDICALS'')
   \<and> run_workflow a Runner_run to_input_item tlog w =
       run_workflow a (\<lambda>ag items cfg ctx. Runner_run ag items cfg \<lparr>state_subsidiaria = ''MEDICALS''\<rparr>)
         to_input_item tlog w"
  by (simp add: run_workflow_engine)



section \<open>Packaged output: results\<close>

text \<open>\<^verbatim>\<open>model_dump\<close> loses nothing: equal dictionaries come from equal models.\<close>

lemma model_dump_AnexosXmlItem_inject:
  "model_dump_AnexosXmlItem a = model_dump_AnexosXmlItem b \<longleftrightarrow> a = b"
  by (cases a, cases b) (auto simp: model_dump_AnexosXmlItem_def)

lemma map_model_dump_AnexosXmlItem_inject:
  "map (\<lambda>a. PyDict (model_dump_AnexosXmlItem a)) xs = map (\<lambda>a. PyDict (model_dump_AnexosXmlItem a)) ys
     \<longleftrightarrow> xs = ys"
  by (rule inj_map_eq_map) (simp add: inj_on_def model_dump_AnexosXmlItem_inject)

lemma model_dump_EmailsItem_inject:
  "model_dump_EmailsItem a = model_dump_EmailsItem b \<longleftrightarrow> a = b"
  by (cases a, cases b)
    (auto simp: model_dump_EmailsItem_def map_model_dump_AnexosXmlItem_inject)

lemma map_model_dump_EmailsItem_inject:
  "map (\<lambda>e. PyDict (model_dump_EmailsItem e)) xs = map (\<lambda>e. PyDict (model_dump_EmailsItem e)) ys
     \<longleftrightarrow> xs = ys"
  by (rule inj_map_eq_map) (simp add: inj_on_def model_dump_EmailsItem_inject)

lemma model_dump_inject: "model_dump a = model_dump b \<longleftrightarrow> a = b"
  by (cases a, cases b) (auto simp: model_dump_def map_model_dump_EmailsItem_inject)

text \<open>
  C2. When the engine returns, \<^verbatim>\<open>run_workflow\<close> returns the serialized text and the
  dump of the engine's final output, whatever the number of attachment records in it;
  the dump determines the final output, so no record has been dropped or changed.
\<close>

theorem result_is_engine_output_unchanged:
  assumes "Runner_run a [user_input_item (PyStr (input_as_text w))] workflow_run_config
             \<lparr>state_subsidiaria = ''MEDICALS''\<rparr> = Inr res"
  shows "snd (run_workflow a Runner_run to_input_item tlog w) =
           Inr [(''output_text'', PyStr (json (final_output res))),
                (''output_parsed'', PyDict (model_dump (final_output res)))]
    \<and> (\<forall>m. model_dump m = model_dump (final_output res) \<longrightarrow> m = final_output res)"
  using assms by (simp add: run_workflow_engine model_dump_inject)

theorem result_is_engine_output_unchanged_witness:
  "snd (run_workflow (medicals_gmail_agent \<lparr>tool_config = []\<rparr>)
          (\<lambda>a i c x. Inr \<lparr>new_items = [] :: pyval list,
             final_output = \<lparr>emails =
               [\<lparr>email_id = ''1234'', remetente = ''exemplo@email.com'',
                 assunto = ''Envio de nota fiscal'', data = ''2024-06-13T09:12:23Z'',
                 anexos_xml = replicate 901 \<lparr>nome_arquivo = ''nf-123.xml'', conteudo_codificado = ''PG5mZS8+''\<rparr>\<rparr>]\<rparr>\<rparr>)
          id [] \<lparr>input_as_text = ''run''\<rparr>) =
     Inr [(''output_text'',
           PyStr (json \<lparr>emails =
               [\<lparr>email_id = ''1234'', remetente = ''exemplo@email.com'',
                 assunto = ''Envio de nota fiscal'', data = ''2024-06-13T09:12:23Z'',
                 anexos_xml = replicate 901 \<lparr>nome_arquivo = ''nf-123.xml'', conteudo_codificado = ''PG5mZS8+''\<rparr>\<rparr>]\<rparr>)),
          (''output_parsed'',
           PyDict [(''emails'', PyList [PyDict
             [(''email_id'', PyStr ''1234''), (''remetente'', PyStr ''exemplo@email.com''),
              (''assunto'', PyStr ''Envio de nota fiscal''), (''data'', PyStr ''2024-06-13T09:12:23Z''),
              (''anexos_xml'', PyList (replicate 901
                 (PyDict [(''nome_arquivo'', PyStr ''nf-123.xml''),
                          (''conteudo_codificado'', PyStr ''PG5mZS8+'')])))]])])]"
  using
    result_is_engine_output_unchanged
      [where Runner_run =
          "\<lambda>a i c x. Inr \<lparr>new_items = [] :: pyval list,
             final_output = \<lparr>emails =
               [\<lparr>email_id = ''1234'', remetente = ''exemplo@email.com'',
                 assunto = ''Envio de nota fiscal'', data = ''2024-06-13T09:12:23Z'',
                 anexos_xml = replicate 901 \<lparr>nome_arquivo = ''nf-123.xml'', conteudo_codificado = ''PG5mZS8+''\<rparr>\<rparr>]\<rparr>\<rparr>"
        and a = "medicals_gmail_agent \<lparr>tool_config = []\<rparr>" and w = "\<lparr>input_as_text = ''run''\<rparr>"
        and res = "\<lparr>new_items = [] :: pyval list,
             final_output = \<lparr>emails =
               [\<lparr>email_id = ''1234'', remetente = ''exemplo@email.com'',
                 assunto = ''Envio de nota fiscal'', data = ''2024-06-13T09:12:23Z'',
                 anexos_xml = replicate 901 \<lparr>nome_arquivo = ''nf-123.xml'', conteudo_codificado = ''PG5mZS8+''\<rparr>\<rparr>]\<rparr>\<rparr>"
        and to_input_item = id and tlog = "[]"]
  by (simp add: model_dump_def model_dump_EmailsItem_def model_dump_AnexosXmlItem_def)

text \<open>
  C1, as the code has it. When the engine returns, \<^verbatim>\<open>output_parsed\<close> is a dictionary
  with the one key \<^verbatim>\<open>emails\<close>; under it stands the list of the e-mails in the engine's
  order, each a dictionary of \<^verbatim>\<open>email_id\<close>, \<^verbatim>\<open>remetente\<close>, \<^verbatim>\<open>assunto\<close>, \<^verbatim>\<open>data\<close> and
  the list \<^verbatim>\<open>anexos_xml\<close> of attachment dictionaries. \<^verbatim>\<open>output_text\<close> is the JSON text
  of the final output, which is \<^verbatim>\<open>{"emails":[]}\<close> when there is no e-mail.
\<close>

theorem output_parsed_is_emails_dict:
  assumes \<open>Runner_run a [user_input_item (PyStr (input_as_text w))] workflow_run_config
             \<lparr>state_subsidiaria = ''MEDICALS''\<rparr> = Inr res\<close>
  shows \<open>\<exists>text.
     snd (run_workflow a Runner_run to_input_item tlog w) =
       Inr [(''output_text'', PyStr text),
            (''output_parsed'',
             PyDict [(''emails'', PyList (map (\<lambda>e. PyDict
               [(''email_id'', PyStr (email_id e)),
                (''remetente'', PyStr (remetente e)),
                (''assunto'', PyStr (assunto e)),
                (''data'', PyStr (data e)),
                (''anexos_xml'', PyList (map (\<lambda>x. PyDict
                   [(''nome_arquivo'', PyStr (nome_arquivo x)),
                    (''conteudo_codificado'', PyStr (conteudo_codificado x))]) (anexos_xml e)))])
               (emails (final_output res))))])]
     \<and> text = json (final_output res)
     \<and> (emails (final_output res) = [] \<longrightarrow> text = ''{"emails":[]}'')\<close>
  using assms
  by (simp add: run_workflow_engine json_def model_dump_def model_dump_EmailsItem_def
      model_dump_AnexosXmlItem_def json_string_def json_escape_def)

text \<open>With no e-mail, the result is the dictionary with the empty list, not an error.\<close>

theorem output_parsed_is_emails_dict_witness:
  \<open>snd (run_workflow (medicals_gmail_agent \<lparr>tool_config = []\<rparr>)
          (\<lambda>a i c x. Inr \<lparr>new_items = [] :: pyval list, final_output = \<lparr>emails = []\<rparr>\<rparr>)
          id [] \<lparr>input_as_text = ''run''\<rparr>) =
     Inr [(''output_text'', PyStr ''{"emails":[]}''),
          (''output_parsed'', PyDict [(''emails'', PyList [])])]\<close>
  using
    output_parsed_is_emails_dict
      [where Runner_run =
          "\<lambda>a i c x. Inr \<lparr>new_items = [] :: pyval list, final_output = \<lparr>emails = []\<rparr>\<rparr>"
        and a = "medicals_gmail_agent \<lparr>tool_config = []\<rparr>" and w = "\<lparr>input_as_text = ''run''\<rparr>"
        and res = "\<lparr>new_items = [] :: pyval list, final_output = \<lparr>emails = []\<rparr>\<rparr>"
        and to_input_item = id and tlog = "[]"]
  by (simp add: json_def model_dump_def json_string_def json_escape_def)

text \<open>
  The claim as the specification words it fails there: the result is not the empty
  sequence with the text \<^verbatim>\<open>[]\<close>.
\<close>

theorem output_parsed_not_a_sequence:
  \<open>snd (run_workflow (medicals_gmail_agent \<lparr>tool_config = []\<rparr>)
          (\<lambda>a i c x. Inr \<lparr>new_items = [] :: pyval list, final_output = \<lparr>emails = []\<rparr>\<rparr>)
          id [] \<lparr>input_as_text = ''run''\<rparr>) \<noteq>
     Inr [(''output_text'', PyStr ''[]''), (''output_parsed'', PyList [])]\<close>
  by (simp add: run_workflow_engine model_dump_def)

section \<open>Instruction generator: results\<close>

text \<open>Text without braces and backslashes is copied to the result as it is.\<close>

lemma fstring_literal_plain:
  assumes "list_all (\<lambda>c. c \<noteq> CHR ''{'' \<and> c \<noteq> CHR ''}'' \<and> c \<noteq> CHR 0x5C) s"
  shows "fstring_literal env out (s @ rest) = fstring_literal env (rev s @ out) rest"
  using assms by (induction s arbitrary: out) auto

lemma instructions_text_1_plain:
  "list_all (\<lambda>c. c \<noteq> CHR ''{'' \<and> c \<noteq> CHR ''}'' \<and> c \<noteq> CHR 0x5C) instructions_text_1"
  unfolding instructions_text_1_def by simp

lemma instructions_text_2_plain:
  "list_all (\<lambda>c. c \<noteq> CHR ''{'' \<and> c \<noteq> CHR ''}'' \<and> c \<noteq> CHR 0x5C) instructions_text_2"
  unfolding instructions_text_2_def by simp

lemma instructions_text_3_plain:
  "list_all (\<lambda>c. c \<noteq> CHR ''{'' \<and> c \<noteq> CHR ''}'' \<and> c \<noteq> CHR 0x5C) instructions_text_3"
  unfolding instructions_text_3_def by simp

text \<open>The placeholder is replaced by the label, the discriminator in it.\<close>

lemma fstring_literal_label:
  \<open>fstring_literal [''state_subsidiaria'' \<mapsto> d] out (label_placeholder @ rest) =
     fstring_literal [''state_subsidiaria'' \<mapsto> d] (rev (''"NF-MEDICOS/'' @ d @ ''"'') @ out) rest\<close>
  by (simp add: label_placeholder_def unescape_def fstring_value_def strip_def is_space_def
      is_name_def is_digit_def is_name_char_def)

text \<open>
  After the brace of line 97 come a line break, six blanks and the backslash of
  \<^verbatim>\<open>\"email_id\"\<close>.
\<close>

lemma instructions_text_4_head:
  "\<exists>rest. instructions_text_4 = ''\<newline>      '' @ CHR 0x5C # rest"
  unfolding instructions_text_4_def by simp

lemma fstring_instructions_template:
  "fstring [''state_subsidiaria'' \<mapsto> d] instructions_template =
     Inl (SyntaxError ''f-string expression part cannot include a backslash'')"
proof -
  obtain rest where rest: "instructions_text_4 = ''\<newline>      '' @ CHR 0x5C # rest"
    using instructions_text_4_head by blast
  have "fstring_literal [''state_subsidiaria'' \<mapsto> d] out (''{'' @ instructions_text_4) =
      Inl (SyntaxError ''f-string expression part cannot include a backslash'')" for out
    unfolding rest by simp
  then show ?thesis
    by (simp add: fstring_def instructions_template_def fstring_literal_plain
        instructions_text_1_plain instructions_text_2_plain instructions_text_3_plain
        fstring_literal_label del: fstring_literal.simps fstring_expr.simps)
qed

text \<open>
  C5, at the discriminator \<^verbatim>\<open>MEDICALS\<close>. The literal is not a well-formed f-string:
  the brace that opens the JSON example of line 97 is not doubled, so it starts a
  replacement field, and a backslash follows in it. The generator yields no
  instructions.
\<close>

theorem instructions_for_MEDICALS_rejected:
  "medicals_gmail_agent_instructions \<lparr>context' = \<lparr>state_subsidiaria = ''MEDICALS''\<rparr>\<rparr> () =
     Inl (SyntaxError ''f-string expression part cannot include a backslash'')"
  by (simp add: medicals_gmail_agent_instructions_def fstring_instructions_template)



section \<open>Serialized output: results\<close>

text \<open>Reading an escaped character gives the character back.\<close>

lemma of_char_hex_digit: "n < 16 \<Longrightarrow> hex_value (hex_digit n) = Some n"
  by (auto simp: hex_value_def hex_digit_def Let_def)

lemma hex_value_zero: "hex_value (CHR ''0'') = Some 0"
  by (simp add: hex_value_def)

lemma hex4_control:
  assumes "(of_char c :: nat) < 32"
  shows "hex4 (CHR ''0'') (CHR ''0'') (hex_digit (of_char c div 16)) (hex_digit (of_char c mod 16))
    = Some (of_char c)"
proof -
  have "(of_char c :: nat) div 16 < 16" "(of_char c :: nat) mod 16 < 16"
    using assms by auto
  then show ?thesis
    by (simp add: hex4_def of_char_hex_digit hex_value_zero)
qed

lemma parse_string_escape:
  "parse_string acc (json_escape c @ rest) = parse_string (c # acc) rest"
proof (cases "(of_char c :: nat) < 32")
  case True
  then show ?thesis
    by (auto simp: json_escape_def json_unescape_def hex4_control)
next
  case False
  then show ?thesis
    by (auto simp: json_escape_def json_unescape_def)
qed

lemma parse_string_body:
  "parse_string acc (concat (map json_escape s) @ CHR 0x22 # rest) = Some (rev acc @ s, rest)"
  by (induction s arbitrary: acc) (simp_all add: parse_string_escape del: parse_string.simps, simp)

lemma parse_string_json_string:
  "parse_string [] (tl (json_string s) @ rest) = Some (s, rest)"
  using parse_string_body [of "[]" s rest] by (simp add: json_string_def)

lemma skip_space_Cons: "\<not> json_space c \<Longrightarrow> skip_space (c # s) = c # s"
  by (simp add: skip_space_def)

lemma to_json_head:
  "\<exists>c t. to_json v = c # t \<and> \<not> json_space c \<and> c \<noteq> CHR '']'' \<and> c \<noteq> CHR ''}''"
  by (cases v) (simp_all add: json_string_def json_space_def)

lemma dict_set_fresh: "k \<notin> fst ` set d \<Longrightarrow> dict_set k v d = d @ [(k, v)]"
  by (induction d) auto

lemma parse_value_string:
  "parse_value (Suc n) (json_string s @ rest) = Some (PyStr s, rest)"
  by (simp add: json_string_def skip_space_Cons json_space_def parse_string_body)

text \<open>One element of a list and the comma or bracket after it.\<close>

lemma parse_elements_step:
  assumes "parse_value m (to_json x @ c # tail) = Some (x, c # tail)"
    and "c = CHR '','' \<or> c = CHR '']''"
  shows "parse_elements (Suc m) acc (to_json x @ c # tail) =
           (if c = CHR '','' then parse_elements m (x # acc) tail
            else Some (PyList (rev acc @ [x]), tail))"
  using assms by (auto simp: skip_space_Cons json_space_def)

text \<open>One member of a dictionary and the comma or brace after it.\<close>

lemma parse_members_step:
  assumes "parse_value m (to_json v @ c # tail) = Some (v, c # tail)"
    and "c = CHR '','' \<or> c = CHR ''}''"
  shows "parse_members (Suc m) acc (json_string k @ CHR '':'' # to_json v @ c # tail) =
           (if c = CHR '','' then parse_members m (dict_set k v acc) tail
            else Some (PyDict (dict_set k v acc), tail))"
  using assms
  by (auto simp: json_string_def skip_space_Cons json_space_def parse_string_body)

lemma parse_elements_join:
  assumes "\<And>x n rest. x \<in> set xs \<Longrightarrow> length (to_json x) \<le> n \<Longrightarrow>
             parse_value n (to_json x @ rest) = Some (x, rest)"
    and "xs \<noteq> []"
    and "length (join '','' (map to_json xs)) < n"
  shows "parse_elements n acc (join '','' (map to_json xs) @ CHR '']'' # rest) =
           Some (PyList (rev acc @ xs), rest)"
  using assms
proof (induction xs arbitrary: n acc)
  case Nil
  then show ?case by simp
next
  case (Cons x xs)
  obtain m where n: "n = Suc m"
    using Cons.prems(3) by (cases n) auto
  have inner: "length (to_json x) \<le> m \<Longrightarrow> parse_value m (to_json x @ s) = Some (x, s)" for s
    using Cons.prems(1) [of x m s] by simp
  show ?case
  proof (cases xs)
    case Nil
    have "length (to_json x) \<le> m"
      using Cons.prems(3) Nil n by simp
    then have "parse_value m (to_json x @ CHR '']'' # rest) = Some (x, CHR '']'' # rest)"
      by (rule inner)
    then have "parse_elements (Suc m) acc (to_json x @ CHR '']'' # rest) =
        Some (PyList (rev acc @ [x]), rest)"
      by (simp add: parse_elements_step del: parse_elements.simps)
    then show ?thesis
      using Nil n by (simp del: parse_elements.simps parse_value.simps)
  next
    case (Cons y ys)
    let ?tail = "join '','' (map to_json xs) @ CHR '']'' # rest"
    have len: "length (to_json x) \<le> m" "length (join '','' (map to_json xs)) < m"
      using Cons.prems(3) Cons n to_json_head [of x] by auto
    have "parse_value m (to_json x @ CHR '','' # ?tail) = Some (x, CHR '','' # ?tail)"
      using len(1) by (rule inner)
    then have "parse_elements (Suc m) acc (to_json x @ CHR '','' # ?tail) =
        parse_elements m (x # acc) ?tail"
      by (simp add: parse_elements_step del: parse_elements.simps)
    moreover have "parse_elements m (x # acc) ?tail = Some (PyList (rev (x # acc) @ xs), rest)"
    proof (rule Cons.IH)
      show "xs \<noteq> []" using Cons by simp
      show "length (join '','' (map to_json xs)) < m" by (rule len(2))
      show "parse_value n (to_json x' @ rest) = Some (x', rest)"
        if "x' \<in> set xs" "length (to_json x') \<le> n" for x' n rest
        using Cons.prems(1) [of x' n rest] that by simp
    qed
    moreover have "join '','' (map to_json (x # xs)) @ CHR '']'' # rest = to_json x @ CHR '','' # ?tail"
      using Cons by simp
    ultimately show ?thesis
      using n by (simp del: parse_elements.simps parse_value.simps)
  qed
qed

lemma parse_members_join:
  assumes "\<And>k v n rest. (k, v) \<in> set kvs \<Longrightarrow> length (to_json v) \<le> n \<Longrightarrow>
             parse_value n (to_json v @ rest) = Some (v, rest)"
    and "kvs \<noteq> []"
    and "distinct (map fst acc @ map fst kvs)"
    and "length (join '','' (map (\<lambda>kv. json_string (fst kv) @ '':'' @ to_json (snd kv)) kvs)) < n"
  shows "parse_members n acc
           (join '','' (map (\<lambda>kv. json_string (fst kv) @ '':'' @ to_json (snd kv)) kvs) @ CHR ''}'' # rest) =
           Some (PyDict (acc @ kvs), rest)"
  using assms
proof (induction kvs arbitrary: n acc)
  case Nil
  then show ?case by simp
next
  case (Cons kv kvs)
  let ?member = "\<lambda>kv. json_string (fst kv) @ '':'' @ to_json (snd kv)"
  obtain k v where kv: "kv = (k, v)"
    by (cases kv)
  obtain m where n: "n = Suc m"
    using Cons.prems(4) by (cases n) auto
  have fresh: "dict_set k v acc = acc @ [(k, v)]"
    using Cons.prems(3) kv by (intro dict_set_fresh) auto
  have inner: "length (to_json v) \<le> m \<Longrightarrow> parse_value m (to_json v @ s) = Some (v, s)" for s
    using Cons.prems(1) [of k v m s] kv by simp
  show ?case
  proof (cases kvs)
    case Nil
    have "length (to_json v) \<le> m"
      using Cons.prems(4) Nil n kv by simp
    then have "parse_value m (to_json v @ CHR ''}'' # rest) = Some (v, CHR ''}'' # rest)"
      by (rule inner)
    then have "parse_members (Suc m) acc (json_string k @ CHR '':'' # to_json v @ CHR ''}'' # rest) =
        Some (PyDict (dict_set k v acc), rest)"
      by (simp add: parse_members_step del: parse_members.simps)
    then show ?thesis
      using Nil n kv fresh by (simp del: parse_members.simps parse_value.simps)
  next
    case (Cons kv' kvs')
    let ?tail = "join '','' (map ?member kvs) @ CHR ''}'' # rest"
    have len: "length (to_json v) \<le> m" "length (join '','' (map ?member kvs)) < m"
      using Cons.prems(4) Cons n kv by (auto simp: json_string_def)
    have "parse_value m (to_json v @ CHR '','' # ?tail) = Some (v, CHR '','' # ?tail)"
      using len(1) by (rule inner)
    then have "parse_members (Suc m) acc (json_string k @ CHR '':'' # to_json v @ CHR '','' # ?tail) =
        parse_members m (dict_set k v acc) ?tail"
      by (simp add: parse_members_step del: parse_members.simps)
    moreover have "parse_members m (acc @ [(k, v)]) ?tail = Some (PyDict ((acc @ [(k, v)]) @ kvs), rest)"
    proof (rule Cons.IH)
      show "kvs \<noteq> []" using Cons by simp
      show "length (join '','' (map ?member kvs)) < m" by (rule len(2))
      show "distinct (map fst (acc @ [(k, v)]) @ map fst kvs)"
        using Cons.prems(3) kv by simp
      show "parse_value n (to_json v' @ rest) = Some (v', rest)"
        if "(k', v') \<in> set kvs" "length (to_json v') \<le> n" for k' v' n rest
        using Cons.prems(1) [of k' v' n rest] that by simp
    qed
    moreover have "join '','' (map ?member (kv # kvs)) @ CHR ''}'' # rest =
        json_string k @ CHR '':'' # to_json v @ CHR '','' # ?tail"
      using Cons kv by simp
    ultimately show ?thesis
      using n fresh kv by (simp del: parse_members.simps parse_value.simps)
  qed
qed

lemma parse_value_to_json:
  "distinct_keys v \<Longrightarrow> length (to_json v) \<le> n \<Longrightarrow> parse_value n (to_json v @ rest) = Some (v, rest)"
proof (induction v arbitrary: n rest)
  case (PyStr s)
  then obtain m where "n = Suc m"
    by (cases n) (auto simp: json_string_def)
  then show ?case
    by (simp add: parse_value_string del: parse_value.simps)
next
  case (PyList xs)
  obtain m where n: "n = Suc m"
    using PyList.prems(2) by (cases n) auto
  show ?case
  proof (cases xs)
    case Nil
    then show ?thesis
      using n by (simp add: skip_space_Cons json_space_def)
  next
    case (Cons x xs')
    obtain c t where head: "to_json x = c # t" "\<not> json_space c" "c \<noteq> CHR '']''"
      using to_json_head [of x] by blast
    have elems: "parse_elements m [] (join '','' (map to_json xs) @ CHR '']'' # rest) =
        Some (PyList (rev [] @ xs), rest)"
    proof (rule parse_elements_join)
      show "xs \<noteq> []" using Cons by simp
      show "length (join '','' (map to_json xs)) < m"
        using PyList.prems(2) n by simp
      show "parse_value n (to_json x' @ rest) = Some (x', rest)"
        if "x' \<in> set xs" "length (to_json x') \<le> n" for x' n rest
        using PyList.IH [of x' n rest] PyList.prems(1) that by (simp add: list_all_iff)
    qed
    obtain t' where first: "join '','' (map to_json xs) @ CHR '']'' # rest = c # t'"
      using Cons head(1) by (cases xs') auto
    have "to_json (PyList xs) @ rest = CHR ''['' # join '','' (map to_json xs) @ CHR '']'' # rest"
      by simp
    then show ?thesis
      using n elems first head(2,3)
      by (simp add: skip_space_Cons json_space_def del: to_json.simps)
  qed
next
  case (PyDict kvs)
  let ?member = "\<lambda>kv. json_string (fst kv) @ '':'' @ to_json (snd kv)"
  obtain m where n: "n = Suc m"
    using PyDict.prems(2) by (cases n) auto
  show ?case
  proof (cases kvs)
    case Nil
    then show ?thesis
      using n by (simp add: skip_space_Cons json_space_def)
  next
    case (Cons kv kvs')
    have members: "parse_members m [] (join '','' (map ?member kvs) @ CHR ''}'' # rest) =
        Some (PyDict ([] @ kvs), rest)"
    proof (rule parse_members_join)
      show "kvs \<noteq> []" using Cons by simp
      show "length (join '','' (map ?member kvs)) < m"
        using PyDict.prems(2) n by simp
      show "distinct (map fst [] @ map fst kvs)"
        using PyDict.prems(1) by simp
      show "parse_value n (to_json v @ rest) = Some (v, rest)"
        if "(k, v) \<in> set kvs" "length (to_json v) \<le> n" for k v n rest
      proof (rule PyDict.IH)
        show "(k, v) \<in> set kvs" by (rule that(1))
        show "v \<in> Basic_BNFs.snds (k, v)" by simp
        show "distinct_keys v"
          using PyDict.prems(1) that(1) by (auto simp: list_all_iff)
        show "length (to_json v) \<le> n" by (rule that(2))
      qed
    qed
    obtain t' where first: "join '','' (map ?member kvs) @ CHR ''}'' # rest = CHR 0x22 # t'"
      using Cons by (cases kvs') (auto simp: json_string_def)
    have "to_json (PyDict kvs) @ rest = CHR ''{'' # join '','' (map ?member kvs) @ CHR ''}'' # rest"
      by simp
    then show ?thesis
      using n members first
      by (simp add: skip_space_Cons json_space_def del: to_json.simps)
  qed
qed

lemma json_loads_to_json: "distinct_keys v \<Longrightarrow> json_loads (to_json v) = Some v"
  using parse_value_to_json [of v "length (to_json v)" "[]"]
  by (simp add: json_loads_def skip_space_def)

lemma distinct_keys_model_dump: "distinct_keys (PyDict (model_dump m))"
  by (simp add: model_dump_def model_dump_EmailsItem_def model_dump_AnexosXmlItem_def
      list_all_iff)

text \<open>
  C3. When the engine returns, the text under \<^verbatim>\<open>output_text\<close>, read as JSON, is the
  value under \<^verbatim>\<open>output_parsed\<close>.
\<close>

theorem output_text_parses_to_output_parsed:
  assumes "Runner_run a [user_input_item (PyStr (input_as_text w))] workflow_run_config
             \<lparr>state_subsidiaria = ''MEDICALS''\<rparr> = Inr res"
  shows "\<exists>text parsed.
           snd (run_workflow a Runner_run to_input_item tlog w) =
             Inr [(''output_text'', PyStr text), (''output_parsed'', parsed)]
           \<and> json_loads text = Some parsed"
  using assms json_loads_to_json [OF distinct_keys_model_dump, of "final_output res"]
  by (simp add: run_workflow_engine json_def del: to_json.simps)

theorem output_text_parses_to_output_parsed_witness:
  \<open>json_loads
     (''{"emails":[{"email_id":"1234","remetente":"exemplo@email.com","assunto":"NF '' @ [CHR 0x5C] @
      ''"06/2024'' @ [CHR 0x5C] @ ''"","data":"2024-06-13T09:12:23Z",'' @
      ''"anexos_xml":[{"nome_arquivo":"nf-123.xml","conteudo_codificado":"PG5mZS8+"}]}]}'') =
   Some (PyDict [(''emails'', PyList [PyDict
     [(''email_id'', PyStr ''1234''), (''remetente'', PyStr ''exemplo@email.com''),
      (''assunto'', PyStr ''NF "06/2024"''), (''data'', PyStr ''2024-06-13T09:12:23Z''),
      (''anexos_xml'', PyList [PyDict [(''nome_arquivo'', PyStr ''nf-123.xml''),
                                       (''conteudo_codificado'', PyStr ''PG5mZS8+'')]])]])])\<close>
  using
    output_text_parses_to_output_parsed
      [where Runner_run =
          "\<lambda>a i c x. Inr \<lparr>new_items = [] :: pyval list,
             final_output = \<lparr>emails =
               [\<lparr>email_id = ''1234'', remetente = ''exemplo@email.com'',
                 assunto = ''NF '' @ [CHR 0x22] @ ''06/2024'' @ [CHR 0x22], data = ''2024-06-13T09:12:23Z'',
                 anexos_xml = [\<lparr>nome_arquivo = ''nf-123.xml'', conteudo_codificado = ''PG5mZS8+''\<rparr>]\<rparr>]\<rparr>\<rparr>"
        and a = "medicals_gmail_agent \<lparr>tool_config = []\<rparr>" and w = "\<lparr>input_as_text = ''run''\<rparr>"
        and res = "\<lparr>new_items = [] :: pyval list,
             final_output = \<lparr>emails =
               [\<lparr>email_id = ''1234'', remetente = ''exemplo@email.com'',
                 assunto = ''NF '' @ [CHR 0x22] @ ''06/2024'' @ [CHR 0x22], data = ''2024-06-13T09:12:23Z'',
                 anexos_xml = [\<lparr>nome_arquivo = ''nf-123.xml'', conteudo_codificado = ''PG5mZS8+''\<rparr>]\<rparr>]\<rparr>\<rparr>"
        and to_input_item = id and tlog = "[]"]
  by (simp add: run_workflow_engine json_def model_dump_def model_dump_EmailsItem_def
      model_dump_AnexosXmlItem_def json_string_def json_escape_def)

end
